theory Spec2Isabelle
  imports Complex_Main "HOL-Library.Sublist"
begin

section \<open>Strings\<close>

text \<open>
  JavaScript strings are modelled as \<^typ>\<open>string\<close> (lists of 8-bit characters): a string
  is the list of its UTF-8 bytes, so text outside ASCII is written as its UTF-8 bytes. The
  string methods used by \<^verbatim>\<open>index.js\<close> are total on strings, so their models have no
  error branch.
\<close>

definition is_digit :: "char \<Rightarrow> bool" where
  "is_digit c = (c \<in> set ''0123456789'')"

text \<open>\<^verbatim>\<open>s.replace(/\D/g, "")\<close>: every character that is not one of 0-9 is removed.\<close>

definition replace_non_digits :: "string \<Rightarrow> string" where
  "replace_non_digits s = filter is_digit s"

text \<open>\<^verbatim>\<open>s.startsWith(t)\<close>, \<^verbatim>\<open>s.endsWith(t)\<close> and \<^verbatim>\<open>s.includes(t)\<close>.\<close>

definition startsWith :: "string \<Rightarrow> string \<Rightarrow> bool" where
  "startsWith s t = prefix t s"

definition endsWith :: "string \<Rightarrow> string \<Rightarrow> bool" where
  "endsWith s t = suffix t s"

definition includes_str :: "string \<Rightarrow> string \<Rightarrow> bool" where
  "includes_str s t = sublist t s"

text \<open>
  The white space that \<^verbatim>\<open>s.trim()\<close> removes, each character as its UTF-8 bytes: the
  line terminators and white space characters of JavaScript, which are U+0009 to U+000D,
  U+0020, U+00A0, U+1680, U+2000 to U+200A, U+2028, U+2029, U+202F, U+205F, U+3000 and
  U+FEFF.
\<close>

definition white_space :: "string list" where
  "white_space =
    [[CHR 0x09], [CHR 0x0A], [CHR 0x0B], [CHR 0x0C], [CHR 0x0D], [CHR 0x20],
     [CHR 0xC2, CHR 0xA0], [CHR 0xE1, CHR 0x9A, CHR 0x80],
     [CHR 0xE2, CHR 0x80, CHR 0x80], [CHR 0xE2, CHR 0x80, CHR 0x81],
     [CHR 0xE2, CHR 0x80, CHR 0x82], [CHR 0xE2, CHR 0x80, CHR 0x83],
     [CHR 0xE2, CHR 0x80, CHR 0x84], [CHR 0xE2, CHR 0x80, CHR 0x85],
     [CHR 0xE2, CHR 0x80, CHR 0x86], [CHR 0xE2, CHR 0x80, CHR 0x87],
     [CHR 0xE2, CHR 0x80, CHR 0x88], [CHR 0xE2, CHR 0x80, CHR 0x89],
     [CHR 0xE2, CHR 0x80, CHR 0x8A], [CHR 0xE2, CHR 0x80, CHR 0xA8],
     [CHR 0xE2, CHR 0x80, CHR 0xA9], [CHR 0xE2, CHR 0x80, CHR 0xAF],
     [CHR 0xE2, CHR 0x81, CHR 0x9F], [CHR 0xE3, CHR 0x80, CHR 0x80],
     [CHR 0xEF, CHR 0xBB, CHR 0xBF]]"

text \<open>
  Removing from the front of a string every character of a table, until the string starts
  with none of them.
\<close>

fun strip_leading :: "string list \<Rightarrow> string \<Rightarrow> string" where
  "strip_leading table [] = []"
| "strip_leading table (c # cs) =
     (case find (\<lambda>w. w \<noteq> [] \<and> prefix w (c # cs)) table of
        None \<Rightarrow> c # cs
      | Some w \<Rightarrow> strip_leading table (drop (length w - 1) cs))"

text \<open>
  \<^verbatim>\<open>s.trim()\<close> removes the white space at both ends. At the end of the string the bytes
  are read backwards.
\<close>

definition trim :: "string \<Rightarrow> string" where
  "trim s = rev (strip_leading (map rev white_space) (rev (strip_leading white_space s)))"

text \<open>The decimal rendering of a non-negative integer in a template literal.\<close>

definition digit_char :: "nat \<Rightarrow> char" where
  "digit_char d = ''0123456789'' ! d"

function show_nat :: "nat \<Rightarrow> string" where
  "show_nat n = (if n < 10 then [digit_char n] else show_nat (n div 10) @ [digit_char (n mod 10)])"
  by pat_completeness auto
termination
  by (relation "measure (\<lambda>n. n)") auto

declare show_nat.simps [simp del]

section \<open>Phone normalizer\<close>

text \<open>
  \<^verbatim>\<open>normalizePhone(input)\<close>, \<^verbatim>\<open>index.js\<close> lines 56-72.
\<close>

definition normalizePhone :: "string \<Rightarrow> string" where
  "normalizePhone input =
     (let digits = replace_non_digits input in
      if startsWith digits ''55'' \<and> length digits \<ge> 12 then digits
      else if length digits \<ge> 10 \<and> length digits \<le> 11 then ''55'' @ digits
      else digits)"

text \<open>
  The algorithm of the specification (section 4.1), in the specification's words: strip
  all non-digit characters; if the result already starts with the domestic country prefix
  and has length at least 12, return it unchanged; else if its length is 10 or 11, prepend
  the domestic country prefix; else return the stripped digits unchanged.
\<close>

definition country_prefix :: string where
  "country_prefix = ''55''"

fun strip_non_digits :: "string \<Rightarrow> string" where
  "strip_non_digits [] = []"
| "strip_non_digits (c # cs) =
     (if is_digit c then c # strip_non_digits cs else strip_non_digits cs)"

definition spec_normalize :: "string \<Rightarrow> string" where
  "spec_normalize input =
     (let stripped = strip_non_digits input in
      if take (length country_prefix) stripped = country_prefix \<and> 12 \<le> length stripped
      then stripped
      else if length stripped = 10 \<or> length stripped = 11 then country_prefix @ stripped
      else stripped)"

section \<open>Resilient request client\<close>

text \<open>The accented letters of the Portuguese messages, as UTF-8 bytes.\<close>

definition a_acute :: string where "a_acute = [CHR 0xC3, CHR 0xA1]"
definition a_tilde :: string where "a_tilde = [CHR 0xC3, CHR 0xA3]"
definition c_cedilla :: string where "c_cedilla = [CHR 0xC3, CHR 0xA7]"
definition i_acute :: string where "i_acute = [CHR 0xC3, CHR 0xAD]"
definition o_acute :: string where "o_acute = [CHR 0xC3, CHR 0xB3]"
definition o_tilde :: string where "o_tilde = [CHR 0xC3, CHR 0xB5]"
definition A_acute :: string where "A_acute = [CHR 0xC3, CHR 0x81]"

text \<open>\<^verbatim>\<open>RETRYABLE_STATUSES\<close>, \<^verbatim>\<open>index.js\<close> line 33.\<close>

definition RETRYABLE_STATUSES :: "nat list" where
  "RETRYABLE_STATUSES = [408, 429, 500, 502, 503, 504]"

text \<open>
  \<^verbatim>\<open>a || b\<close> where \<^verbatim>\<open>a\<close> is a string or \<^verbatim>\<open>undefined\<close> (\<^const>\<open>None\<close>): the empty
  string and \<^verbatim>\<open>undefined\<close> are falsy.
\<close>

definition str_or :: "string option \<Rightarrow> string \<Rightarrow> string" where
  "str_or a b = (case a of None \<Rightarrow> b | Some s \<Rightarrow> if s = [] then b else s)"

text \<open>\<^verbatim>\<open>friendlyError(status, defaultMsg)\<close>, \<^verbatim>\<open>index.js\<close> lines 35-46.\<close>

definition messages :: "(nat \<times> string) list" where
  "messages =
    [(401, ''Chave de API inv'' @ a_acute @ ''lida. Verifique a vari'' @ a_acute
             @ ''vel CHATGURU_API_KEY.''),
     (403, ''Sem permiss'' @ a_tilde @ ''o para acessar este recurso no ChatGuru.''),
     (404, ''Recurso n'' @ a_tilde @ ''o encontrado no ChatGuru.''),
     (429, ''Limite de requisi'' @ c_cedilla @ o_tilde
             @ ''es atingido. Tente novamente em alguns segundos.''),
     (500, ''Erro interno do servidor ChatGuru. Tente novamente.''),
     (502, ''ChatGuru temporariamente indispon'' @ i_acute @ ''vel. Tente novamente.''),
     (503, ''ChatGuru em manuten'' @ c_cedilla @ a_tilde
             @ ''o. Tente novamente em instantes.'')]"

definition generic_message :: "nat \<Rightarrow> string" where
  "generic_message code = ''Erro '' @ show_nat code @ '' na API do ChatGuru.''"

definition friendlyError :: "nat \<Rightarrow> string option \<Rightarrow> string" where
  "friendlyError code defaultMsg =
     str_or (map_of messages code) (str_or defaultMsg (generic_message code))"

text \<open>
  The values a decoded JSON body can take, and \<^verbatim>\<open>undefined\<close> for a property that is
  absent. \<^verbatim>\<open>JNum\<close> holds the integer-valued numbers; an object is the list of its
  properties.
\<close>

datatype js =
  JUndefined | JNull | JBool bool | JNum int | JStr string | JArr "js list"
  | JObj "(string \<times> js) list"

primrec truthy :: "js \<Rightarrow> bool" where
  "truthy JUndefined = False"
| "truthy JNull = False"
| "truthy (JBool b) = b"
| "truthy (JNum n) = (n \<noteq> 0)"
| "truthy (JStr s) = (s \<noteq> [])"
| "truthy (JArr xs) = True"
| "truthy (JObj kvs) = True"

text \<open>\<^verbatim>\<open>a || b\<close> on values.\<close>

definition js_or :: "js \<Rightarrow> js \<Rightarrow> js" where
  "js_or a b = (if truthy a then a else b)"

text \<open>
  \<^verbatim>\<open>v.name\<close> for the property names \<^verbatim>\<open>success\<close>, \<^verbatim>\<open>error\<close> and \<^verbatim>\<open>message\<close> on a
  value \<^verbatim>\<open>v\<close> that is neither \<^verbatim>\<open>null\<close> nor \<^verbatim>\<open>undefined\<close>: an object yields the
  property or \<^verbatim>\<open>undefined\<close>; a boolean, number, string or array has no such property.
\<close>

primrec get_prop :: "js \<Rightarrow> string \<Rightarrow> js" where
  "get_prop JUndefined name = JUndefined"
| "get_prop JNull name = JUndefined"
| "get_prop (JBool b) name = JUndefined"
| "get_prop (JNum n) name = JUndefined"
| "get_prop (JStr s) name = JUndefined"
| "get_prop (JArr xs) name = JUndefined"
| "get_prop (JObj kvs) name = (case map_of kvs name of None \<Rightarrow> JUndefined | Some v \<Rightarrow> v)"

text \<open>
  What one call of \<^verbatim>\<open>fetch\<close> gives: a rejection with the message of the error, or a
  response. Of the response the code reads \<^verbatim>\<open>ok\<close>, \<^verbatim>\<open>status\<close> and the result of
  \<^verbatim>\<open>json()\<close>, which is the decoded body or a rejection.
\<close>

record response =
  ok :: bool
  status :: nat
  json :: "string + js"

datatype fetch_result = Rejected string | Resolved response

text \<open>
  What \<^verbatim>\<open>chatguruRequest\<close> can throw: \<^verbatim>\<open>new Error(v)\<close>, recorded with the value \<^verbatim>\<open>v\<close>
  the message is made from (a string \<^verbatim>\<open>v\<close> is the message itself); the rejection of
  \<^verbatim>\<open>response.json()\<close>; and the type error of reading a property of \<^verbatim>\<open>null\<close>.
\<close>

datatype exn = Error js | JsonRejected string | TypeError

text \<open>What a call did: the number of \<^verbatim>\<open>fetch\<close> calls, the delays slept, and the result.\<close>

record run =
  attempts :: nat
  sleeps :: "nat list"
  outcome :: "exn + js"

text \<open>\<^verbatim>\<open>Math.min(1000 * Math.pow(2, attempt - 1), 8000)\<close>, with \<^verbatim>\<open>attempt\<close> at least 1.\<close>

definition backoff :: "nat \<Rightarrow> nat" where
  "backoff attempt = min (1000 * 2 ^ (attempt - 1)) 8000"

definition connection_error :: "nat \<Rightarrow> string \<Rightarrow> string" where
  "connection_error retries msg =
     ''Erro de conex'' @ a_tilde @ ''o com ChatGuru ap'' @ o_acute @ ''s '' @ show_nat retries
       @ '' tentativas: '' @ msg"

text \<open>Lines 132-136: the decoded body is read and its \<^verbatim>\<open>success\<close> flag tested.\<close>

definition read_body :: "string + js \<Rightarrow> exn + js" where
  "read_body decoded =
     (case decoded of
        Inl msg \<Rightarrow> Inl (JsonRejected msg)
      | Inr body \<Rightarrow>
          if body = JNull \<or> body = JUndefined then Inl TypeError
          else if get_prop body ''success'' = JBool False
          then Inl (Error (js_or (get_prop body ''error'')
                            (js_or (get_prop body ''message'')
                               (JStr ''Erro desconhecido na API do ChatGuru.''))))
          else Inr body)"

text \<open>
  The attempt loop of \<^verbatim>\<open>chatguruRequest\<close>, lines 103-137. \<^verbatim>\<open>fetch k\<close> is what the
  \<^verbatim>\<open>k\<close>-th call of \<^verbatim>\<open>fetch\<close> gives. A loop that ends without returning leaves the
  function's result \<^verbatim>\<open>undefined\<close>. The retry notices written to the console are not
  part of the model.
\<close>

function request_loop :: "(nat \<Rightarrow> fetch_result) \<Rightarrow> nat \<Rightarrow> nat \<Rightarrow> nat list \<Rightarrow> run" where
  "request_loop fetch retries attempt slept =
     (if attempt \<le> retries then
        (case fetch attempt of
           Rejected msg \<Rightarrow>
             if attempt < retries
             then request_loop fetch retries (attempt + 1) (slept @ [backoff attempt])
             else \<lparr>attempts = attempt, sleeps = slept,
                   outcome = Inl (Error (JStr (connection_error retries msg)))\<rparr>
         | Resolved r \<Rightarrow>
             if \<not> ok r \<and> status r \<in> set RETRYABLE_STATUSES \<and> attempt < retries
             then request_loop fetch retries (attempt + 1) (slept @ [backoff attempt])
             else if \<not> ok r
             then \<lparr>attempts = attempt, sleeps = slept,
                   outcome = Inl (Error (JStr (friendlyError (status r) None)))\<rparr>
             else \<lparr>attempts = attempt, sleeps = slept, outcome = read_body (json r)\<rparr>)
      else \<lparr>attempts = attempt - 1, sleeps = slept, outcome = Inr JUndefined\<rparr>)"
  by pat_completeness auto
termination
  by (relation "measure (\<lambda>(fetch, retries, attempt, slept). Suc retries - attempt)") auto

declare request_loop.simps [simp del]

definition chatguruRequest :: "(nat \<Rightarrow> fetch_result) \<Rightarrow> nat \<Rightarrow> run" where
  "chatguruRequest fetch retries = request_loop fetch retries 1 []"

section \<open>Browser automation pipeline\<close>

text \<open>
  The page is the environment of a scrape operation: what the browser shows is given, not
  computed. Counts of records are natural numbers. A requested limit is any number that the
  schema of the tools (\<^verbatim>\<open>z.number()\<close>) lets through, negative and fractional ones
  included: a finite number, modelled as a rational (every finite double is one).
\<close>

text \<open>\<^verbatim>\<open>isLoginPage(url)\<close>, \<^verbatim>\<open>index.js\<close> lines 356-358.\<close>

definition isLoginPage :: "string \<Rightarrow> bool" where
  "isLoginPage url =
     (includes_str url ''login'' \<or> includes_str url ''signin'' \<or> endsWith url ''/'')"

text \<open>
  The expiry condition in the specification's words (section 4.4, AuthCheck): the URL
  matches a login or sign-in pattern, or is the bare root path. The path of a URL is what
  follows the authority, up to the query or the fragment.
\<close>

fun after_scheme :: "string \<Rightarrow> string" where
  "after_scheme [] = []"
| "after_scheme (c # cs) =
     (if prefix ''://'' (c # cs) then drop 3 (c # cs) else after_scheme cs)"

definition url_pathname :: "string \<Rightarrow> string" where
  "url_pathname url =
     takeWhile (\<lambda>c. c \<notin> set ''?#'') (dropWhile (\<lambda>c. c \<notin> set ''/?#'') (after_scheme url))"

definition spec_bare_root_path :: "string \<Rightarrow> bool" where
  "spec_bare_root_path url = (url_pathname url = ''/'')"

definition spec_session_expired :: "string \<Rightarrow> bool" where
  "spec_session_expired url =
     (includes_str url ''login'' \<or> includes_str url ''signin'' \<or> spec_bare_root_path url)"

text \<open>
  The rendered conversation, as the extraction of \<^verbatim>\<open>chatguru_read_messages\<close> reads it
  (lines 486-521). Of a \<^verbatim>\<open>.msg-container\<close> element: whether it has the class
  \<^verbatim>\<open>bg-sent-msg\<close>, the \<^verbatim>\<open>innerText\<close> of its \<^verbatim>\<open>span.msg-contentT\<close> if there is one,
  whether it holds an \<^verbatim>\<open>audio\<close> element, and the \<^verbatim>\<open>textContent\<close> of its
  \<^verbatim>\<open>span.msg-timestamp\<close> if there is one. Of a child of the messages container: whether
  it has the classes \<^verbatim>\<open>msg-data\<close> and \<^verbatim>\<open>row_msg\<close>, its \<^verbatim>\<open>textContent\<close>, and its
  \<^verbatim>\<open>.msg-container\<close> if there is one.
\<close>

record msg_container =
  bg_sent_msg :: bool
  msg_contentT :: "string option"
  audio :: bool
  msg_timestamp :: "string option"

record child =
  msg_data :: bool
  row_msg :: bool
  textContent :: string
  container :: "msg_container option"

record ChatMessage =
  remetente :: string
  horario :: string
  data :: string
  texto :: string

text \<open>\<^verbatim>\<open>el?.textContent?.trim() || ""\<close>, where \<^const>\<open>None\<close> is an element that is absent.\<close>

definition trimmed_or_empty :: "string option \<Rightarrow> string" where
  "trimmed_or_empty t = str_or (map_option trim t) []"

definition audio_placeholder :: string where
  "audio_placeholder = ''['' @ A_acute @ ''udio]''"

text \<open>
  The loop over \<^verbatim>\<open>container.children\<close>, lines 492-518, with its two variables
  \<^verbatim>\<open>currentDate\<close> and \<^verbatim>\<open>allMsgs\<close>.
\<close>

fun collect :: "string \<Rightarrow> ChatMessage list \<Rightarrow> child list \<Rightarrow> ChatMessage list" where
  "collect currentDate allMsgs [] = allMsgs"
| "collect currentDate allMsgs (c # rest) =
     (if msg_data c then collect (trim (textContent c)) allMsgs rest
      else if \<not> row_msg c then collect currentDate allMsgs rest
      else case container c of
        None \<Rightarrow> collect currentDate allMsgs rest
      | Some m \<Rightarrow>
          if trimmed_or_empty (msg_contentT m) = []
          then if audio m
               then collect currentDate
                      (allMsgs @ [\<lparr>remetente = (if bg_sent_msg m then ''atendente'' else ''cliente''),
                                    horario = trimmed_or_empty (msg_timestamp m),
                                    data = currentDate, texto = audio_placeholder\<rparr>]) rest
               else collect currentDate allMsgs rest
          else collect currentDate
                 (allMsgs @ [\<lparr>remetente = (if bg_sent_msg m then ''atendente'' else ''cliente''),
                               horario = trimmed_or_empty (msg_timestamp m),
                               data = currentDate,
                               texto = trimmed_or_empty (msg_contentT m)\<rparr>]) rest)"

text \<open>
  The integer that \<^verbatim>\<open>slice\<close> makes of its argument: the number is truncated towards
  zero, so every number between -1 and 1 becomes 0.
\<close>

definition to_integer :: "rat \<Rightarrow> int" where
  "to_integer x = (if x < 0 then \<lceil>x\<rceil> else \<lfloor>x\<rfloor>)"

text \<open>
  \<^verbatim>\<open>xs.slice(start)\<close>, with \<^verbatim>\<open>start\<close> already an integer: a negative start counts from
  the end and stops at the first element; another start stops at the length.
\<close>

definition array_slice :: "int \<Rightarrow> 'a list \<Rightarrow> 'a list" where
  "array_slice relativeStart xs =
     (if relativeStart < 0 then drop (nat (max (int (length xs) + relativeStart) 0)) xs
      else drop (nat (min relativeStart (int (length xs)))) xs)"

text \<open>
  The extraction callback, lines 486-521, which ends with
  \<^verbatim>\<open>allMsgs.slice(-maxMessages)\<close>; \<^const>\<open>None\<close> is a page without the element
  \<^verbatim>\<open>#chat_messages_app > div\<close>.
\<close>

definition extract_messages :: "rat \<Rightarrow> child list option \<Rightarrow> ChatMessage list" where
  "extract_messages maxMessages app =
     (case app of
        None \<Rightarrow> []
      | Some children \<Rightarrow> array_slice (to_integer (- maxMessages)) (collect [] [] children))"

text \<open>
  The scroll loop of the conversation, lines 461-483. \<^verbatim>\<open>count i\<close> is the number of
  \<^verbatim>\<open>.row_msg\<close> elements found by iteration \<^verbatim>\<open>i\<close>. The result is the number of iterations
  that ran to their end; each of them turns the mouse wheel over the messages container, if
  the page has one, and waits.
\<close>

function scroll_messages :: "(nat \<Rightarrow> nat) \<Rightarrow> rat \<Rightarrow> nat \<Rightarrow> nat \<Rightarrow> nat" where
  "scroll_messages count limit msgCountBefore scrollAttempt =
     (if scrollAttempt < 10 then
        (if of_nat (count scrollAttempt) \<ge> limit then scrollAttempt
         else if count scrollAttempt = msgCountBefore \<and> scrollAttempt > 1 then scrollAttempt
         else scroll_messages count limit (count scrollAttempt) (scrollAttempt + 1))
      else scrollAttempt)"
  by pat_completeness auto
termination
  by (relation "measure (\<lambda>(count, limit, msgCountBefore, scrollAttempt). 10 - scrollAttempt)")
    auto

declare scroll_messages.simps [simp del]

text \<open>
  The scroll loop of the chat list, lines 677-684. \<^verbatim>\<open>count i\<close> is the number of
  \<^verbatim>\<open>.list__user-card\<close> elements found by iteration \<^verbatim>\<open>i\<close>. The result is the number of
  iterations that ran to their end; each of them scrolls the list container to its bottom
  and waits.
\<close>

function scroll_cards :: "(nat \<Rightarrow> nat) \<Rightarrow> rat \<Rightarrow> nat \<Rightarrow> nat \<Rightarrow> nat" where
  "scroll_cards count targetCount prevCount i =
     (if i < 10 then
        (if of_nat (count i) \<ge> targetCount \<or> count i = prevCount then i
         else scroll_cards count targetCount (count i) (i + 1))
      else i)"
  by pat_completeness auto
termination
  by (relation "measure (\<lambda>(count, targetCount, prevCount, i). 10 - i)") auto

declare scroll_cards.simps [simp del]

text \<open>
  The extraction of the chat cards, lines 689-744: one record is pushed for each card until
  \<^verbatim>\<open>result.length >= maxChats\<close>. How the fields of one record are read from its card
  (\<^verbatim>\<open>read_card\<close>) has no influence on the loop.
\<close>

fun extract_chats :: "('c \<Rightarrow> 's) \<Rightarrow> rat \<Rightarrow> 's list \<Rightarrow> 'c list \<Rightarrow> 's list" where
  "extract_chats read_card maxChats result [] = result"
| "extract_chats read_card maxChats result (c # cards) =
     (if of_nat (length result) \<ge> maxChats then result
      else extract_chats read_card maxChats (result @ [read_card c]) cards)"

text \<open>\<^verbatim>\<open>Math.min(limit, 100)\<close>, line 569.\<close>

definition effectiveLimit :: "rat \<Rightarrow> rat" where
  "effectiveLimit limit = min limit 100"

text \<open>
  The page a scrape operation meets: whether \<^verbatim>\<open>session.json\<close> exists; what
  \<^verbatim>\<open>page.goto\<close> gives, the message of its error or the URL of the page afterwards; the
  counts the scroll loops find; the conversation and the chat cards at extraction. The
  other calls of the browser are taken to succeed.
\<close>

record 'c page =
  session_exists :: bool
  goto :: "string + string"
  row_msg_counts :: "nat \<Rightarrow> nat"
  chat_messages_app :: "child list option"
  list_container :: bool
  card_counts :: "nat \<Rightarrow> nat"
  user_cards :: "'c list"

text \<open>
  The text a tool returns; \<^verbatim>\<open>Records rs\<close> is the text that holds the JSON of the
  records \<^verbatim>\<open>rs\<close>.
\<close>

datatype 'r tool_result = Text string | Records "'r list"

primrec records_of :: "'r tool_result \<Rightarrow> 'r list" where
  "records_of (Text t) = []"
| "records_of (Records rs) = rs"

definition session_missing :: "string \<Rightarrow> string" where
  "session_missing server =
     ''Sess'' @ a_tilde @ ''o n'' @ a_tilde @ ''o encontrada. Execute `CHATGURU_SERVER=''
       @ server @ '' node login.js` para fazer login.''"

definition session_expired :: "string \<Rightarrow> string" where
  "session_expired server =
     ''Sess'' @ a_tilde @ ''o expirada. Execute `CHATGURU_SERVER='' @ server
       @ '' node login.js` para renovar.''"

text \<open>
  \<^verbatim>\<open>chatguru_read_messages\<close>, lines 432-538: the number of scrolls made and the text
  returned.
\<close>

definition chatguru_read_messages ::
  "string \<Rightarrow> string \<Rightarrow> rat \<Rightarrow> 'c page \<Rightarrow> nat \<times> ChatMessage tool_result" where
  "chatguru_read_messages server chat_id limit p =
     (if \<not> session_exists p then (0, Text (session_missing server))
      else case goto p of
        Inl msg \<Rightarrow> (0, Text (''Erro ao ler mensagens: '' @ msg))
      | Inr url \<Rightarrow>
          if isLoginPage url then (0, Text (session_expired server))
          else
            let scrolls = scroll_messages (row_msg_counts p) limit 0 0;
                messages = extract_messages limit (chat_messages_app p)
            in if length messages = 0
               then (scrolls, Text (''Nenhuma mensagem encontrada no chat '' @ chat_id
                      @ ''. O chat pode estar vazio ou a estrutura da p'' @ a_acute
                      @ ''gina mudou.''))
               else (scrolls, Records messages))"

text \<open>
  \<^verbatim>\<open>chatguru_list_chats\<close>, lines 568-771, on a page to which the filters have been
  applied. The summary line that precedes the JSON of the records is left out.
\<close>

definition chatguru_list_chats ::
  "('c \<Rightarrow> 's) \<Rightarrow> string \<Rightarrow> rat \<Rightarrow> 'c page \<Rightarrow> nat \<times> 's tool_result" where
  "chatguru_list_chats read_card server limit p =
     (if \<not> session_exists p then (0, Text (session_missing server))
      else case goto p of
        Inl msg \<Rightarrow> (0, Text (''Erro ao listar chats: '' @ msg))
      | Inr url \<Rightarrow>
          if isLoginPage url then (0, Text (session_expired server))
          else
            let scrolls = (if list_container p
                           then scroll_cards (card_counts p) (effectiveLimit limit) 0 0 else 0);
                chats = extract_chats read_card (effectiveLimit limit) [] (user_cards p)
            in if length chats = 0
               then (scrolls, Text ''Nenhum chat encontrado com os filtros aplicados.'')
               else (scrolls, Records chats))"

section \<open>Properties used in the results\<close>

text \<open>
  An attempt fails retryably when \<^verbatim>\<open>fetch\<close> rejects (a network-level failure) or the
  response is not ok and its status is one of \<^const>\<open>RETRYABLE_STATUSES\<close>.
\<close>

definition retryable_failure :: "fetch_result \<Rightarrow> bool" where
  "retryable_failure x =
     (case x of Rejected msg \<Rightarrow> True
      | Resolved r \<Rightarrow> \<not> ok r \<and> status r \<in> set RETRYABLE_STATUSES)"

text \<open>
  A list of delays increases strictly up to the cap: each delay is smaller than the next
  one, or both are the cap; no delay exceeds the cap.
\<close>

fun increasing_to_cap :: "nat \<Rightarrow> nat list \<Rightarrow> bool" where
  "increasing_to_cap cap [] = True"
| "increasing_to_cap cap [x] = (x \<le> cap)"
| "increasing_to_cap cap (x # y # ys) =
     ((x < y \<or> (x = cap \<and> y = cap)) \<and> increasing_to_cap cap (y # ys))"

text \<open>
  A scroll loop that made \<open>n\<close> scrolls stopped exactly when \<open>stop\<close> first held: it
  made at most 10 scrolls, \<open>stop\<close> held at none of the iterations that scrolled, and it
  held at iteration \<open>n\<close> unless the loop ran out of iterations.
\<close>

definition stops_first_at :: "(nat \<Rightarrow> bool) \<Rightarrow> nat \<Rightarrow> bool" where
  "stops_first_at stop n = (n \<le> 10 \<and> (\<forall>i<n. \<not> stop i) \<and> (n < 10 \<longrightarrow> stop n))"

text \<open>
  The stop condition of the list loop at iteration \<open>i\<close>: the count has reached the cap,
  or it equals the count of the iteration before (zero before the first iteration).
\<close>

definition cards_stop :: "(nat \<Rightarrow> nat) \<Rightarrow> rat \<Rightarrow> nat \<Rightarrow> bool" where
  "cards_stop count cap i =
     (of_nat (count i) \<ge> cap \<or> count i = (if i = 0 then 0 else count (i - 1)))"

text \<open>
  The stop condition of the conversation loop at iteration \<open>i\<close>: the count has reached
  the limit, or, from the third iteration on, it equals the count of the iteration before.
\<close>

definition messages_stop :: "(nat \<Rightarrow> nat) \<Rightarrow> rat \<Rightarrow> nat \<Rightarrow> bool" where
  "messages_stop count cap i = (of_nat (count i) \<ge> cap \<or> (i \<ge> 2 \<and> count i = count (i - 1)))"

section \<open>Phone normalizer: results\<close>

lemma replace_non_digits_strip: "replace_non_digits s = strip_non_digits s"
  by (induction s) (simp_all add: replace_non_digits_def)

lemma startsWith_take: "startsWith s t = (take (length t) s = t)"
  unfolding startsWith_def prefix_def
  by (metis append_eq_conv_conj append_take_drop_id)

text \<open>
  Claim C4. For every input string, \<^const>\<open>normalizePhone\<close> computes the specification's
  algorithm: the non-digit characters are stripped first; stripped digits that start with
  55 and have length at least 12 are returned unchanged; otherwise stripped digits of
  length 10 or 11 get the prefix 55; otherwise the stripped digits are returned unchanged.
  The function is total: there is no input on which it raises.
\<close>

theorem normalizePhone_refines_spec:
  "normalizePhone input = spec_normalize input"
  by (auto simp: normalizePhone_def spec_normalize_def Let_def replace_non_digits_strip
      startsWith_take country_prefix_def)

text \<open>
  Claim C5, as the specification states it, fails: the input \<^verbatim>\<open>+55 (81) 91095702\<close> holds
  twelve digits, starts with 55, and is therefore returned as its twelve digits; no digit
  is inserted.
\<close>

theorem normalizePhone_scenario_counterexample:
  "normalizePhone ''+55 (81) 91095702'' \<noteq> ''5581991095702''"
  by (simp add: normalizePhone_def replace_non_digits_def is_digit_def startsWith_def Let_def)

text \<open>
  Claim C5, amended: \<^verbatim>\<open>normalizePhone("+55 (81) 91095702")\<close> returns exactly
  \<^verbatim>\<open>558191095702\<close>, the digits of the input.
\<close>

theorem normalizePhone_scenario:
  "normalizePhone ''+55 (81) 91095702'' = ''558191095702''"
  by (simp add: normalizePhone_def replace_non_digits_def is_digit_def startsWith_def Let_def)

section \<open>Resilient request client: results\<close>

lemma request_loop_retry_step:
  assumes "k < retries" "retryable_failure (fetch k)"
  shows "request_loop fetch retries k slept
         = request_loop fetch retries (Suc k) (slept @ [backoff k])"
  using assms
  by (subst request_loop.simps) (auto simp: retryable_failure_def split: fetch_result.splits)

lemma request_loop_retries:
  assumes "a \<le> k" "k \<le> retries" "\<forall>j. a \<le> j \<and> j < k \<longrightarrow> retryable_failure (fetch j)"
  shows "request_loop fetch retries a slept
         = request_loop fetch retries k (slept @ map backoff [a..<k])"
  using assms
proof (induction k)
  case 0
  then show ?case by simp
next
  case (Suc k)
  show ?case
  proof (cases "a = Suc k")
    case True
    then show ?thesis by simp
  next
    case False
    with Suc.prems have ak: "a \<le> k" and kr: "k < retries" by simp_all
    have "request_loop fetch retries a slept
          = request_loop fetch retries k (slept @ map backoff [a..<k])"
      using Suc.IH ak kr Suc.prems(3) by simp
    also have "\<dots> = request_loop fetch retries (Suc k) ((slept @ map backoff [a..<k]) @ [backoff k])"
      using kr Suc.prems(3) ak by (intro request_loop_retry_step) simp_all
    finally show ?thesis using ak by simp
  qed
qed

lemma backoff_step:
  assumes "1 \<le> k"
  shows "backoff k < backoff (Suc k) \<or> (backoff k = 8000 \<and> backoff (Suc k) = 8000)"
proof -
  obtain m where k: "k = Suc m" using assms by (cases k) auto
  define x :: nat where "x = 2 ^ m"
  have x: "1 \<le> x" by (simp add: x_def)
  have "backoff k = min (1000 * x) 8000" "backoff (Suc k) = min (2000 * x) 8000"
    by (simp_all add: backoff_def k x_def)
  with x show ?thesis by (auto simp: min_def)
qed

lemma backoff_le: "backoff k \<le> 8000"
  by (simp add: backoff_def)

lemma increasing_backoff:
  "1 \<le> a \<Longrightarrow> increasing_to_cap 8000 (map backoff [a..<b])"
proof (induction "b - a" arbitrary: a)
  case 0
  then show ?case by simp
next
  case (Suc n)
  then have ab: "a < b" by simp
  show ?case
  proof (cases "Suc a < b")
    case True
    then have "[a..<b] = a # Suc a # [Suc (Suc a)..<b]"
      by (simp add: upt_conv_Cons)
    moreover have "increasing_to_cap 8000 (map backoff [Suc a..<b])"
      using Suc by (intro Suc.hyps(1)) simp_all
    ultimately show ?thesis using backoff_step[OF Suc.prems] True
      by (simp add: upt_conv_Cons)
  next
    case False
    with ab have "[a..<b] = [a]" by (simp add: upt_conv_Cons)
    then show ?thesis by (simp add: backoff_le)
  qed
qed

lemma request_loop_final:
  assumes "1 \<le> N" "retryable_failure (fetch N)"
  shows "request_loop fetch N N slept
         = \<lparr>attempts = N, sleeps = slept,
             outcome = (case fetch N of
                          Rejected msg \<Rightarrow> Inl (Error (JStr (connection_error N msg)))
                        | Resolved r \<Rightarrow> Inl (Error (JStr (friendlyError (status r) None))))\<rparr>"
  using assms
  by (subst request_loop.simps) (auto simp: retryable_failure_def split: fetch_result.splits)

lemma request_loop_not_ok:
  assumes "k \<le> retries" "fetch k = Resolved r" "\<not> ok r" "status r \<notin> set RETRYABLE_STATUSES"
  shows "request_loop fetch retries k slept
         = \<lparr>attempts = k, sleeps = slept,
             outcome = Inl (Error (JStr (friendlyError (status r) None)))\<rparr>"
  using assms by (subst request_loop.simps) simp

lemma request_loop_ok:
  assumes "k \<le> retries" "fetch k = Resolved r" "ok r"
  shows "request_loop fetch retries k slept
         = \<lparr>attempts = k, sleeps = slept, outcome = read_body (json r)\<rparr>"
  using assms by (subst request_loop.simps) simp

text \<open>
  Claim C1. For every number of attempts \<open>N \<ge> 1\<close>, when every attempt fails retryably,
  \<^const>\<open>chatguruRequest\<close> makes exactly \<open>N\<close> attempts; the delay slept after attempt
  \<open>k < N\<close> is \<open>min (1000 * 2 ^ (k - 1)) 8000\<close> milliseconds, so the delays increase
  strictly up to the cap; and the call ends in an error, never in the silent result
  \<^verbatim>\<open>undefined\<close>: when the last attempt was rejected, the connection error whose message
  names \<open>N\<close> (the text of line 118 with \<open>N\<close> in decimal, followed by the message of
  the rejection), the classified HTTP error otherwise.
\<close>

theorem chatguruRequest_exhausts_retries:
  assumes "1 \<le> N" and "\<forall>k. 1 \<le> k \<and> k \<le> N \<longrightarrow> retryable_failure (fetch k)"
  shows "attempts (chatguruRequest fetch N) = N
       \<and> sleeps (chatguruRequest fetch N) = map (\<lambda>k. min (1000 * 2 ^ (k - 1)) 8000) [1..<N]
       \<and> increasing_to_cap 8000 (sleeps (chatguruRequest fetch N))
       \<and> outcome (chatguruRequest fetch N)
           = (case fetch N of
                Rejected msg \<Rightarrow>
                  Inl (Error (JStr (''Erro de conex'' @ [CHR 0xC3, CHR 0xA3]
                         @ ''o com ChatGuru ap'' @ [CHR 0xC3, CHR 0xB3] @ ''s '' @ show_nat N
                         @ '' tentativas: '' @ msg)))
              | Resolved r \<Rightarrow> Inl (Error (JStr (friendlyError (status r) None))))
       \<and> outcome (chatguruRequest fetch N) \<noteq> Inr JUndefined"
proof -
  have "chatguruRequest fetch N = request_loop fetch N N ([] @ map backoff [1..<N])"
    unfolding chatguruRequest_def using assms by (intro request_loop_retries) simp_all
  also have "\<dots> = \<lparr>attempts = N, sleeps = map backoff [1..<N],
             outcome = (case fetch N of
                          Rejected msg \<Rightarrow> Inl (Error (JStr (connection_error N msg)))
                        | Resolved r \<Rightarrow> Inl (Error (JStr (friendlyError (status r) None))))\<rparr>"
    using assms by (simp add: request_loop_final)
  finally have run: "chatguruRequest fetch N = \<dots>" .
  have "map backoff [1..<N] = map (\<lambda>k. min (1000 * 2 ^ (k - 1)) 8000) [1..<N]"
    by (simp add: backoff_def)
  moreover have "increasing_to_cap 8000 (map backoff [1..<N])"
    by (rule increasing_backoff) simp
  ultimately show ?thesis
    unfolding run
    by (simp add: connection_error_def a_tilde_def o_acute_def split: fetch_result.splits)
qed

lemma upt_1_3: "[Suc 0..<3] = [Suc 0, 2]"
  by (simp add: upt_rec)

lemma upt_1_6: "[Suc 0..<6] = [Suc 0, 2, 3, 4, 5]"
  by (simp add: upt_rec)

lemma show_nat_6: "show_nat 6 = ''6''"
  by (simp add: show_nat.simps digit_char_def)

theorem chatguruRequest_exhausts_retries_witness:
  "attempts (chatguruRequest (\<lambda>k. Rejected ''socket hang up'') 6) = 6
   \<and> sleeps (chatguruRequest (\<lambda>k. Rejected ''socket hang up'') 6)
       = [1000, 2000, 4000, 8000, 8000]
   \<and> outcome (chatguruRequest (\<lambda>k. Rejected ''socket hang up'') 6)
       = Inl (Error (JStr (''Erro de conex'' @ [CHR 0xC3, CHR 0xA3] @ ''o com ChatGuru ap''
                   @ [CHR 0xC3, CHR 0xB3] @ ''s 6 tentativas: socket hang up'')))
   \<and> attempts (chatguruRequest (\<lambda>k. Resolved \<lparr>ok = False, status = 503, json = Inl []\<rparr>) 3) = 3
   \<and> sleeps (chatguruRequest (\<lambda>k. Resolved \<lparr>ok = False, status = 503, json = Inl []\<rparr>) 3)
       = [1000, 2000]
   \<and> outcome (chatguruRequest (\<lambda>k. Resolved \<lparr>ok = False, status = 503, json = Inl []\<rparr>) 3)
       = Inl (Error (JStr (''ChatGuru em manuten'' @ [CHR 0xC3, CHR 0xA7, CHR 0xC3, CHR 0xA3]
                   @ ''o. Tente novamente em instantes.'')))"
  using chatguruRequest_exhausts_retries [of 6 "\<lambda>k. Rejected ''socket hang up''"]
    chatguruRequest_exhausts_retries
      [of 3 "\<lambda>k. Resolved \<lparr>ok = False, status = 503, json = Inl []\<rparr>"]
  by (simp add: retryable_failure_def RETRYABLE_STATUSES_def friendlyError_def str_or_def
      messages_def upt_1_3 upt_1_6 show_nat_6 c_cedilla_def a_tilde_def)

lemma RETRYABLE_STATUSES_set: "set RETRYABLE_STATUSES = {408, 429, 500, 502, 503, 504}"
  by (simp add: RETRYABLE_STATUSES_def)

text \<open>
  Claim C2, as the specification states it, fails: the statuses that are retried are not
  five. \<^const>\<open>RETRYABLE_STATUSES\<close> holds six statuses, four of them server-side failures
  (500, 502, 503 and 504).
\<close>

theorem retryable_statuses_counterexample:
  "\<not> card (set RETRYABLE_STATUSES) = 5 \<and> {500, 502, 503, 504} \<subseteq> set RETRYABLE_STATUSES"
  by (simp add: RETRYABLE_STATUSES_def)

lemma friendlyError_unmapped:
  "code \<notin> {401, 403, 404, 429, 500, 502, 503} \<Longrightarrow> friendlyError code None = generic_message code"
  by (simp add: friendlyError_def str_or_def messages_def)

text \<open>
  Claim C2, amended. The statuses that \<^const>\<open>chatguruRequest\<close> retries are exactly the six
  statuses 408, 429, 500, 502, 503 and 504. A response that is not ok with any other status,
  at whichever attempt \<open>k\<close> it arrives, ends the call at that attempt: no delay follows
  it and no further attempt is made. The error thrown carries the message that
  \<^const>\<open>friendlyError\<close> maps the status to (401, 403 and 404 have one) and the generic
  message \<^verbatim>\<open>Erro <status> na API do ChatGuru.\<close> for every status without a mapping.
\<close>

theorem non_retryable_status_fails_immediately:
  assumes "1 \<le> k" and "k \<le> retries"
    and "\<forall>j. 1 \<le> j \<and> j < k \<longrightarrow> retryable_failure (fetch j)"
    and "fetch k = Resolved r" and "\<not> ok r" and "status r \<notin> set RETRYABLE_STATUSES"
  shows "set RETRYABLE_STATUSES = {408, 429, 500, 502, 503, 504}
       \<and> attempts (chatguruRequest fetch retries) = k
       \<and> sleeps (chatguruRequest fetch retries) = map backoff [1..<k]
       \<and> outcome (chatguruRequest fetch retries)
           = Inl (Error (JStr (friendlyError (status r) None)))
       \<and> (status r \<in> {401, 403, 404}
            \<longrightarrow> map_of messages (status r) = Some (friendlyError (status r) None))
       \<and> (status r \<notin> {401, 403, 404}
            \<longrightarrow> friendlyError (status r) None
                = ''Erro '' @ show_nat (status r) @ '' na API do ChatGuru.'')"
proof -
  have "chatguruRequest fetch retries = request_loop fetch retries k ([] @ map backoff [1..<k])"
    unfolding chatguruRequest_def using assms(1-3) by (intro request_loop_retries) simp_all
  also have "\<dots> = \<lparr>attempts = k, sleeps = map backoff [1..<k],
             outcome = Inl (Error (JStr (friendlyError (status r) None)))\<rparr>"
    using assms(2,4-6) by (simp add: request_loop_not_ok)
  finally have run: "chatguruRequest fetch retries = \<dots>" .
  have "status r \<notin> {401, 403, 404} \<longrightarrow> friendlyError (status r) None
          = ''Erro '' @ show_nat (status r) @ '' na API do ChatGuru.''"
    using assms(6) friendlyError_unmapped [of "status r"]
    by (auto simp: RETRYABLE_STATUSES_def generic_message_def)
  moreover have "status r \<in> {401, 403, 404}
          \<longrightarrow> map_of messages (status r) = Some (friendlyError (status r) None)"
    by (auto simp: friendlyError_def str_or_def messages_def)
  ultimately show ?thesis
    unfolding run by (simp add: RETRYABLE_STATUSES_set)
qed

lemma show_nat_418: "show_nat 418 = ''418''"
  by (simp add: show_nat.simps digit_char_def)

theorem non_retryable_status_fails_immediately_witness:
  "attempts (chatguruRequest (\<lambda>k. Resolved \<lparr>ok = False, status = 418, json = Inl []\<rparr>) 3) = 1
   \<and> sleeps (chatguruRequest (\<lambda>k. Resolved \<lparr>ok = False, status = 418, json = Inl []\<rparr>) 3) = []
   \<and> outcome (chatguruRequest (\<lambda>k. Resolved \<lparr>ok = False, status = 418, json = Inl []\<rparr>) 3)
       = Inl (Error (JStr ''Erro 418 na API do ChatGuru.''))"
  using non_retryable_status_fails_immediately
    [of 1 3 "\<lambda>k. Resolved \<lparr>ok = False, status = 418, json = Inl []\<rparr>"
        "\<lparr>ok = False, status = 418, json = Inl []\<rparr>"]
  by (simp add: RETRYABLE_STATUSES_def messages_def show_nat_418)

lemma read_body_failure:
  assumes "get_prop body ''success'' = JBool False"
  shows "read_body (Inr body)
         = Inl (Error (js_or (get_prop body ''error'')
                  (js_or (get_prop body ''message'')
                     (JStr ''Erro desconhecido na API do ChatGuru.''))))"
proof -
  have "body \<noteq> JNull" "body \<noteq> JUndefined" using assms by auto
  with assms show ?thesis by (simp add: read_body_def)
qed

lemma read_body_success:
  assumes "get_prop body ''success'' \<noteq> JBool False" "body \<noteq> JNull" "body \<noteq> JUndefined"
  shows "read_body (Inr body) = Inr body"
  using assms by (simp add: read_body_def)

text \<open>
  Claim C3, as the specification states it, fails: the code compares the flag with
  \<^verbatim>\<open>false\<close> by strict equality, so a body whose flag is falsy without being \<^verbatim>\<open>false\<close>
  is returned as a success. On HTTP 200 with the body
  \<^verbatim>\<open>{"success": 0, "error": "bad"}\<close> the call returns the body.
\<close>

theorem business_failure_counterexample:
  "\<not> truthy (get_prop (JObj [(''success'', JNum 0), (''error'', JStr ''bad'')]) ''success'')
   \<and> chatguruRequest (\<lambda>k. Resolved \<lparr>ok = True, status = 200,
         json = Inr (JObj [(''success'', JNum 0), (''error'', JStr ''bad'')])\<rparr>) 3
     = \<lparr>attempts = 1, sleeps = [],
         outcome = Inr (JObj [(''success'', JNum 0), (''error'', JStr ''bad'')])\<rparr>"
  by (simp add: chatguruRequest_def request_loop.simps read_body_def)

text \<open>
  Claim C3, amended. An ok response, at whichever attempt \<open>k\<close> it arrives and whatever
  its status, ends the call at that attempt: no delay follows it and no further attempt is
  made. When the \<^verbatim>\<open>success\<close> flag of the decoded body is \<^verbatim>\<open>false\<close> (the boolean
  itself), the call throws an error made from the body's \<^verbatim>\<open>error\<close> if that is truthy,
  else from its \<^verbatim>\<open>message\<close> if that is truthy, else from the generic message; a
  non-empty string is taken verbatim. When the flag is anything else (another falsy value
  such as 0 or \<^verbatim>\<open>null\<close>, or no flag at all), the body is returned as the result.
\<close>

theorem business_failure_never_retried:
  assumes "1 \<le> k" and "k \<le> retries"
    and "\<forall>j. 1 \<le> j \<and> j < k \<longrightarrow> retryable_failure (fetch j)"
    and "fetch k = Resolved r" and "ok r" and "json r = Inr body"
  shows "attempts (chatguruRequest fetch retries) = k
       \<and> sleeps (chatguruRequest fetch retries) = map backoff [1..<k]
       \<and> (get_prop body ''success'' = JBool False \<longrightarrow>
            outcome (chatguruRequest fetch retries)
            = Inl (Error (if truthy (get_prop body ''error'') then get_prop body ''error''
                          else if truthy (get_prop body ''message'')
                               then get_prop body ''message''
                          else JStr ''Erro desconhecido na API do ChatGuru.'')))
       \<and> (get_prop body ''success'' \<noteq> JBool False \<and> body \<noteq> JNull \<and> body \<noteq> JUndefined \<longrightarrow>
            outcome (chatguruRequest fetch retries) = Inr body)"
proof -
  have "chatguruRequest fetch retries = request_loop fetch retries k ([] @ map backoff [1..<k])"
    unfolding chatguruRequest_def using assms(1-3) by (intro request_loop_retries) simp_all
  also have "\<dots> = \<lparr>attempts = k, sleeps = map backoff [1..<k],
             outcome = read_body (json r)\<rparr>"
    using assms(2,4,5) by (simp add: request_loop_ok)
  finally have run: "chatguruRequest fetch retries = \<dots>" .
  show ?thesis
    unfolding run using assms(6)
    by (simp add: read_body_failure read_body_success js_or_def)
qed

theorem business_failure_never_retried_witness:
  "attempts (chatguruRequest (\<lambda>k. Resolved \<lparr>ok = True, status = 200, json = Inr (JObj [(''success'', JBool False), (''error'', JStr ''bad'')])\<rparr>) 3) = 1
   \<and> sleeps (chatguruRequest (\<lambda>k. Resolved \<lparr>ok = True, status = 200, json = Inr (JObj [(''success'', JBool False), (''error'', JStr ''bad'')])\<rparr>) 3) = []
   \<and> outcome (chatguruRequest (\<lambda>k. Resolved \<lparr>ok = True, status = 200, json = Inr (JObj [(''success'', JBool False), (''error'', JStr ''bad'')])\<rparr>) 3)
       = Inl (Error (JStr ''bad''))
   \<and> attempts (chatguruRequest (\<lambda>k. Resolved \<lparr>ok = True, status = 200, json = Inr (JObj [(''success'', JBool False), (''error'', JStr []), (''message'', JStr ''no chat'')])\<rparr>) 3) = 1
   \<and> sleeps (chatguruRequest (\<lambda>k. Resolved \<lparr>ok = True, status = 200, json = Inr (JObj [(''success'', JBool False), (''error'', JStr []), (''message'', JStr ''no chat'')])\<rparr>) 3) = []
   \<and> outcome (chatguruRequest (\<lambda>k. Resolved \<lparr>ok = True, status = 200, json = Inr (JObj [(''success'', JBool False), (''error'', JStr []), (''message'', JStr ''no chat'')])\<rparr>) 3)
       = Inl (Error (JStr ''no chat''))
   \<and> attempts (chatguruRequest (\<lambda>k. Resolved \<lparr>ok = True, status = 200, json = Inr (JObj [(''success'', JBool False)])\<rparr>) 3) = 1
   \<and> sleeps (chatguruRequest (\<lambda>k. Resolved \<lparr>ok = True, status = 200, json = Inr (JObj [(''success'', JBool False)])\<rparr>) 3) = []
   \<and> outcome (chatguruRequest (\<lambda>k. Resolved \<lparr>ok = True, status = 200, json = Inr (JObj [(''success'', JBool False)])\<rparr>) 3)
       = Inl (Error (JStr ''Erro desconhecido na API do ChatGuru.''))
   \<and> attempts (chatguruRequest (\<lambda>k. Resolved \<lparr>ok = True, status = 200, json = Inr (JObj [(''success'', JNum 0), (''error'', JStr ''bad'')])\<rparr>) 3) = 1
   \<and> sleeps (chatguruRequest (\<lambda>k. Resolved \<lparr>ok = True, status = 200, json = Inr (JObj [(''success'', JNum 0), (''error'', JStr ''bad'')])\<rparr>) 3) = []
   \<and> outcome (chatguruRequest (\<lambda>k. Resolved \<lparr>ok = True, status = 200, json = Inr (JObj [(''success'', JNum 0), (''error'', JStr ''bad'')])\<rparr>) 3)
       = Inr (JObj [(''success'', JNum 0), (''error'', JStr ''bad'')])
   \<and> attempts (chatguruRequest (\<lambda>k. Resolved \<lparr>ok = True, status = 200, json = Inr (JObj [(''success'', JNull)])\<rparr>) 3) = 1
   \<and> sleeps (chatguruRequest (\<lambda>k. Resolved \<lparr>ok = True, status = 200, json = Inr (JObj [(''success'', JNull)])\<rparr>) 3) = []
   \<and> outcome (chatguruRequest (\<lambda>k. Resolved \<lparr>ok = True, status = 200, json = Inr (JObj [(''success'', JNull)])\<rparr>) 3)
       = Inr (JObj [(''success'', JNull)])
   \<and> attempts (chatguruRequest (\<lambda>k. Resolved \<lparr>ok = True, status = 200, json = Inr (JObj [(''message'', JStr ''sent'')])\<rparr>) 3) = 1
   \<and> sleeps (chatguruRequest (\<lambda>k. Resolved \<lparr>ok = True, status = 200, json = Inr (JObj [(''message'', JStr ''sent'')])\<rparr>) 3) = []
   \<and> outcome (chatguruRequest (\<lambda>k. Resolved \<lparr>ok = True, status = 200, json = Inr (JObj [(''message'', JStr ''sent'')])\<rparr>) 3)
       = Inr (JObj [(''message'', JStr ''sent'')])"
  using business_failure_never_retried
      [of 1 3 "\<lambda>k. Resolved \<lparr>ok = True, status = 200, json = Inr (JObj [(''success'', JBool False), (''error'', JStr ''bad'')])\<rparr>"
          "\<lparr>ok = True, status = 200, json = Inr (JObj [(''success'', JBool False), (''error'', JStr ''bad'')])\<rparr>"
          "JObj [(''success'', JBool False), (''error'', JStr ''bad'')]"]
    business_failure_never_retried
      [of 1 3 "\<lambda>k. Resolved \<lparr>ok = True, status = 200, json = Inr (JObj [(''success'', JBool False), (''error'', JStr []), (''message'', JStr ''no chat'')])\<rparr>"
          "\<lparr>ok = True, status = 200, json = Inr (JObj [(''success'', JBool False), (''error'', JStr []), (''message'', JStr ''no chat'')])\<rparr>"
          "JObj [(''success'', JBool False), (''error'', JStr []), (''message'', JStr ''no chat'')]"]
    business_failure_never_retried
      [of 1 3 "\<lambda>k. Resolved \<lparr>ok = True, status = 200, json = Inr (JObj [(''success'', JBool False)])\<rparr>"
          "\<lparr>ok = True, status = 200, json = Inr (JObj [(''success'', JBool False)])\<rparr>"
          "JObj [(''success'', JBool False)]"]
    business_failure_never_retried
      [of 1 3 "\<lambda>k. Resolved \<lparr>ok = True, status = 200, json = Inr (JObj [(''success'', JNum 0), (''error'', JStr ''bad'')])\<rparr>"
          "\<lparr>ok = True, status = 200, json = Inr (JObj [(''success'', JNum 0), (''error'', JStr ''bad'')])\<rparr>"
          "JObj [(''success'', JNum 0), (''error'', JStr ''bad'')]"]
    business_failure_never_retried
      [of 1 3 "\<lambda>k. Resolved \<lparr>ok = True, status = 200, json = Inr (JObj [(''success'', JNull)])\<rparr>"
          "\<lparr>ok = True, status = 200, json = Inr (JObj [(''success'', JNull)])\<rparr>"
          "JObj [(''success'', JNull)]"]
    business_failure_never_retried
      [of 1 3 "\<lambda>k. Resolved \<lparr>ok = True, status = 200, json = Inr (JObj [(''message'', JStr ''sent'')])\<rparr>"
          "\<lparr>ok = True, status = 200, json = Inr (JObj [(''message'', JStr ''sent'')])\<rparr>"
          "JObj [(''message'', JStr ''sent'')]"]
  by simp

section \<open>Browser automation pipeline: results\<close>

lemma isLoginPage_iff:
  "isLoginPage url \<longleftrightarrow>
     (\<exists>a b. url = a @ ''login'' @ b) \<or> (\<exists>a b. url = a @ ''signin'' @ b) \<or> (\<exists>a. url = a @ ''/'')"
  by (simp add: isLoginPage_def includes_str_def endsWith_def sublist_def suffix_def)

text \<open>
  With the session file present and the navigation itself successful, both scrape
  operations return the text that tells the caller to run the login script again precisely
  when \<^const>\<open>isLoginPage\<close> holds of the resulting URL, and then nothing is scrolled and no
  record is extracted.
\<close>

lemma expiry_reported_iff_isLoginPage:
  assumes "session_exists p" and "goto p = Inr url"
  shows "(snd (chatguru_read_messages server chat_id limit p) = Text (session_expired server))
          = isLoginPage url
       \<and> (snd (chatguru_list_chats read_card server limit p) = Text (session_expired server))
          = isLoginPage url
       \<and> (isLoginPage url \<longrightarrow>
            chatguru_read_messages server chat_id limit p = (0, Text (session_expired server))
            \<and> records_of (snd (chatguru_read_messages server chat_id limit p)) = [])"
  using assms
  by (simp add: chatguru_read_messages_def chatguru_list_chats_def Let_def session_expired_def)

lemma trailing_slash_is_login_page: "isLoginPage ''https://s17.expertintegrado.app/chats/''"
  by code_simp

lemma root_with_fragment_is_no_login_page: "\<not> isLoginPage ''https://s17.expertintegrado.app/#686ede5b2333cb755c57d1a5''"
  by code_simp

text \<open>
  Claim C6 says that expiry is reported for exactly the URLs that match a login or sign-in
  pattern or are the bare root path. The code tests whether the URL string ends with a
  slash, where \<^verbatim>\<open>login.js\<close> tests the path of the URL. So the chat list reached at
  \<^verbatim>\<open>https://s17.expertintegrado.app/chats/\<close>, whose path is \<^verbatim>\<open>/chats/\<close>, is reported
  as an expired session; and a conversation whose navigation ended at the root path with the
  fragment kept, \<^verbatim>\<open>https://s17.expertintegrado.app/#686ede5b2333cb755c57d1a5\<close>, is not reported: the
  extraction runs on that page.
\<close>

theorem session_expiry_misjudged:
  "\<not> spec_session_expired ''https://s17.expertintegrado.app/chats/''
   \<and> chatguru_list_chats (\<lambda>c. c) ''17'' 50
       \<lparr>session_exists = True, goto = Inr ''https://s17.expertintegrado.app/chats/'',
        row_msg_counts = (\<lambda>i. 0), chat_messages_app = None,
        list_container = True, card_counts = (\<lambda>i. 1), user_cards = [''Maria'']\<rparr>
     = (0, Text (session_expired ''17''))
   \<and> spec_session_expired ''https://s17.expertintegrado.app/#686ede5b2333cb755c57d1a5''
   \<and> chatguru_read_messages ''17'' ''686ede5b2333cb755c57d1a5'' 50
       \<lparr>session_exists = True,
        goto = Inr ''https://s17.expertintegrado.app/#686ede5b2333cb755c57d1a5'',
        row_msg_counts = (\<lambda>i. 1), chat_messages_app = Some [\<lparr>msg_data = False, row_msg = True, textContent = ''oi 10:00'',
             container = Some \<lparr>bg_sent_msg = False, msg_contentT = Some ''oi'', audio = False,
                               msg_timestamp = Some ''10:00''\<rparr>\<rparr>],
        list_container = False, card_counts = (\<lambda>i. 0), user_cards = ([] :: unit list)\<rparr>
     = (2, Records [\<lparr>remetente = ''cliente'', horario = ''10:00'', data = [], texto = ''oi''\<rparr>])"
proof -
  have "\<not> spec_session_expired ''https://s17.expertintegrado.app/chats/''"
    by code_simp
  moreover have "spec_session_expired ''https://s17.expertintegrado.app/#686ede5b2333cb755c57d1a5''"
    by code_simp
  moreover have "trim ''oi'' = ''oi''" "trim ''10:00'' = ''10:00''"
    by code_simp+
  ultimately show ?thesis
    using trailing_slash_is_login_page root_with_fragment_is_no_login_page
    by (simp add: chatguru_read_messages_def chatguru_list_chats_def Let_def
        scroll_messages.simps extract_messages_def to_integer_def array_slice_def
        trimmed_or_empty_def str_or_def)
qed

text \<open>
  What holds of the trailing window for every limit: the extracted messages are a suffix
  of the collected sequence, in its order; a limit of at least 1 bounds their number.
\<close>

lemma to_integer_truncates:
  "to_integer (- (1 / 2)) = 0 \<and> to_integer (- (5 / 2)) = - 2 \<and> to_integer (5 / 2) = 2"
  by (simp add: to_integer_def ceiling_minus floor_eq_iff)

lemma array_slice_last_two: "array_slice (to_integer (- (5 / 2))) [a, b, c] = [b, c]"
proof -
  have "to_integer (- (5 / 2)) = - 2"
    by (simp add: to_integer_def ceiling_minus floor_eq_iff)
  then show ?thesis
    by (simp add: array_slice_def)
qed

lemma array_slice_suffix: "suffix (array_slice k xs) xs"
  by (simp add: array_slice_def suffix_drop)

lemma extract_messages_suffix:
  "suffix (extract_messages limit (Some children)) (collect [] [] children)"
  by (simp add: extract_messages_def array_slice_suffix)

lemma extract_messages_length:
  assumes "1 \<le> limit"
  shows "of_nat (length (extract_messages limit app)) \<le> limit"
proof (cases app)
  case None
  with assms show ?thesis by (simp add: extract_messages_def)
next
  case (Some children)
  have neg: "to_integer (- limit) = - \<lfloor>limit\<rfloor>"
    using assms by (simp add: to_integer_def ceiling_minus floor_eq_iff)
  have pos: "1 \<le> \<lfloor>limit\<rfloor>"
    using assms by (simp add: le_floor_iff)
  have "int (length (array_slice (- \<lfloor>limit\<rfloor>) (collect [] [] children))) \<le> \<lfloor>limit\<rfloor>"
    using pos unfolding array_slice_def by (simp add: max_def) linarith
  then have "int (length (extract_messages limit app)) \<le> \<lfloor>limit\<rfloor>"
    by (simp add: Some extract_messages_def neg)
  then have "of_int (int (length (extract_messages limit app))) \<le> (of_int \<lfloor>limit\<rfloor> :: rat)"
    by (simp only: of_int_le_iff)
  also have "\<dots> \<le> limit"
    by (rule of_int_floor_le)
  finally show ?thesis by simp
qed

text \<open>
  Claim C7 says that the extraction returns at most \<open>limit\<close> messages for every
  requested limit. With the limit 0 the code evaluates \<^verbatim>\<open>allMsgs.slice(-0)\<close>, which is
  the whole array: a conversation of one text message is returned whole.
\<close>

theorem extract_messages_limit_zero:
  "extract_messages 0
     (Some [\<lparr>msg_data = False, row_msg = True, textContent = ''oi 10:00'',
             container = Some \<lparr>bg_sent_msg = False, msg_contentT = Some ''oi'', audio = False,
                               msg_timestamp = Some ''10:00''\<rparr>\<rparr>])
   = [\<lparr>remetente = ''cliente'', horario = ''10:00'', data = [], texto = ''oi''\<rparr>]
   \<and> length (extract_messages 0
        (Some [\<lparr>msg_data = False, row_msg = True, textContent = ''oi 10:00'',
                container = Some \<lparr>bg_sent_msg = False, msg_contentT = Some ''oi'', audio = False,
                                  msg_timestamp = Some ''10:00''\<rparr>\<rparr>])) > 0"
proof -
  have "trim ''oi'' = ''oi''" "trim ''10:00'' = ''10:00''"
    by code_simp+
  then show ?thesis
    by (simp add: extract_messages_def to_integer_def array_slice_def trimmed_or_empty_def
        str_or_def)
qed







lemma scroll_cards_invariant:
  assumes "i \<le> 10" and "prevCount = (if i = 0 then 0 else count (i - 1))"
  shows "i \<le> scroll_cards count cap prevCount i
       \<and> scroll_cards count cap prevCount i \<le> 10
       \<and> (\<forall>j. i \<le> j \<and> j < scroll_cards count cap prevCount i \<longrightarrow> \<not> cards_stop count cap j)
       \<and> (scroll_cards count cap prevCount i < 10
            \<longrightarrow> cards_stop count cap (scroll_cards count cap prevCount i))"
  using assms
proof (induction count cap prevCount i rule: scroll_cards.induct)
  case (1 count cap prevCount i)
  show ?case
  proof (cases "i < 10 \<and> \<not> (of_nat (count i) \<ge> cap \<or> count i = prevCount)")
    case True
    then have unfold: "scroll_cards count cap prevCount i
                       = scroll_cards count cap (count i) (i + 1)"
      by (subst scroll_cards.simps) simp
    have here: "\<not> cards_stop count cap i"
      using True "1.prems"(2) by (auto simp: cards_stop_def)
    have IH: "i + 1 \<le> scroll_cards count cap (count i) (i + 1)
       \<and> scroll_cards count cap (count i) (i + 1) \<le> 10
       \<and> (\<forall>j. i + 1 \<le> j \<and> j < scroll_cards count cap (count i) (i + 1)
              \<longrightarrow> \<not> cards_stop count cap j)
       \<and> (scroll_cards count cap (count i) (i + 1) < 10
            \<longrightarrow> cards_stop count cap (scroll_cards count cap (count i) (i + 1)))"
      using True by (intro "1.IH") simp_all
    show ?thesis
      unfolding unfold
    proof (intro conjI allI impI)
      fix j
      assume j: "i \<le> j \<and> j < scroll_cards count cap (count i) (i + 1)"
      show "\<not> cards_stop count cap j"
      proof (cases "j = i")
        case True
        with here show ?thesis by simp
      next
        case False
        with j have "i + 1 \<le> j" by simp
        with j IH show ?thesis by blast
      qed
    qed (use IH in simp_all)
  next
    case False
    then have unfold: "scroll_cards count cap prevCount i = i"
      by (subst scroll_cards.simps) auto
    show ?thesis
      unfolding unfold using False "1.prems" by (auto simp: cards_stop_def)
  qed
qed

lemma scroll_messages_invariant:
  assumes "i \<le> 10" and "msgCountBefore = (if i = 0 then 0 else count (i - 1))"
  shows "i \<le> scroll_messages count cap msgCountBefore i
       \<and> scroll_messages count cap msgCountBefore i \<le> 10
       \<and> (\<forall>j. i \<le> j \<and> j < scroll_messages count cap msgCountBefore i
              \<longrightarrow> \<not> messages_stop count cap j)
       \<and> (scroll_messages count cap msgCountBefore i < 10
            \<longrightarrow> messages_stop count cap (scroll_messages count cap msgCountBefore i))"
  using assms
proof (induction count cap msgCountBefore i rule: scroll_messages.induct)
  case (1 count cap msgCountBefore i)
  show ?case
  proof (cases "i < 10 \<and> \<not> of_nat (count i) \<ge> cap
                  \<and> \<not> (count i = msgCountBefore \<and> i > 1)")
    case True
    then have unfold: "scroll_messages count cap msgCountBefore i
                       = scroll_messages count cap (count i) (i + 1)"
      by (subst scroll_messages.simps) auto
    have here: "\<not> messages_stop count cap i"
      using True "1.prems"(2) by (auto simp: messages_stop_def)
    have IH: "i + 1 \<le> scroll_messages count cap (count i) (i + 1)
       \<and> scroll_messages count cap (count i) (i + 1) \<le> 10
       \<and> (\<forall>j. i + 1 \<le> j \<and> j < scroll_messages count cap (count i) (i + 1)
              \<longrightarrow> \<not> messages_stop count cap j)
       \<and> (scroll_messages count cap (count i) (i + 1) < 10
            \<longrightarrow> messages_stop count cap (scroll_messages count cap (count i) (i + 1)))"
      using True by (intro "1.IH") simp_all
    show ?thesis
      unfolding unfold
    proof (intro conjI allI impI)
      fix j
      assume j: "i \<le> j \<and> j < scroll_messages count cap (count i) (i + 1)"
      show "\<not> messages_stop count cap j"
      proof (cases "j = i")
        case True
        with here show ?thesis by simp
      next
        case False
        with j have "i + 1 \<le> j" by simp
        with j IH show ?thesis by blast
      qed
    qed (use IH in simp_all)
  next
    case False
    then have unfold: "scroll_messages count cap msgCountBefore i = i"
      by (subst scroll_messages.simps) auto
    show ?thesis
      unfolding unfold using False "1.prems" by (auto simp: messages_stop_def)
  qed
qed

text \<open>
  Claim C8, amended. Each scroll loop makes at most 10 iterations. The list loop stops
  early exactly when the card count has reached the cap or equals the count found by the
  iteration before (zero before the first): one scroll without growth ends it. The
  conversation loop stops early exactly when the message count has reached the limit or,
  from its third iteration on, equals the count found by the iteration before.
\<close>

theorem scroll_loops_stop:
  "stops_first_at (cards_stop count cap) (scroll_cards count cap 0 0)
   \<and> stops_first_at (messages_stop count cap) (scroll_messages count cap 0 0)"
  using scroll_cards_invariant [of 0 0 count cap] scroll_messages_invariant [of 0 0 count cap]
  by (simp add: stops_first_at_def)

text \<open>
  On a page whose count stays at 5, with the cap 50, the list loop scrolls once and the
  conversation loop twice.
\<close>

lemma scroll_cards_stalled: "scroll_cards (\<lambda>i. 5) 50 0 0 = 1"
  by (simp add: scroll_cards.simps)

lemma scroll_messages_stalled: "scroll_messages (\<lambda>i. 5) 50 0 0 = 2"
  by (simp add: scroll_messages.simps)

text \<open>
  Claim C8, as the specification states it, fails: it gives one stop condition for both
  loops, and on a page whose count stays at 5, with the cap 50, no condition on the
  iteration is the exact stop condition of both, since the list loop stops at its second
  iteration and the conversation loop at its third.
\<close>

theorem scroll_loops_counterexample:
  "\<not> (\<exists>stop. stops_first_at stop (scroll_cards (\<lambda>i. 5) 50 0 0)
               \<and> stops_first_at stop (scroll_messages (\<lambda>i. 5) 50 0 0))"
proof
  assume "\<exists>stop. stops_first_at stop (scroll_cards (\<lambda>i. 5) 50 0 0)
               \<and> stops_first_at stop (scroll_messages (\<lambda>i. 5) 50 0 0)"
  then obtain stop where "stops_first_at stop 1" and "stops_first_at stop 2"
    by (auto simp: scroll_cards_stalled scroll_messages_stalled)
  then have "stop 1" and "\<forall>i<2. \<not> stop i"
    by (simp_all add: stops_first_at_def)
  then show False by simp
qed

theorem scroll_loops_stop_witness:
  "scroll_cards (\<lambda>i. 20 + 10 * i) 50 0 0 = 3
   \<and> stops_first_at (cards_stop (\<lambda>i. 20 + 10 * i) 50) 3
   \<and> scroll_messages (\<lambda>i. 7) 50 0 0 = 2
   \<and> stops_first_at (messages_stop (\<lambda>i. 7) 50) 2"
proof -
  have cards: "scroll_cards (\<lambda>i. 20 + 10 * i) 50 0 0 = 3"
    by (simp add: scroll_cards.simps)
  have msgs: "scroll_messages (\<lambda>i. 7) 50 0 0 = 2"
    by (simp add: scroll_messages.simps)
  show ?thesis
    using scroll_loops_stop [of "\<lambda>i. 20 + 10 * i" 50] scroll_loops_stop [of "\<lambda>i. 7" 50]
    by (simp add: cards msgs)
qed

lemma collect_skips_silent_row:
  assumes "\<not> msg_data c" "row_msg c" "container c = Some m"
    "trimmed_or_empty (msg_contentT m) = []" "\<not> audio m"
  shows "collect d acc (pre @ c # post) = collect d acc (pre @ post)"
  using assms by (induction pre arbitrary: d acc) (auto split: option.splits)

text \<open>
  Claim C10. A rendered message row (a child with the class \<^verbatim>\<open>row_msg\<close> that is not a
  date label, with a \<^verbatim>\<open>.msg-container\<close>) whose container has no text left after trimming
  and no audio element adds nothing to the extracted sequence, wherever it stands in the
  conversation. A row without text that holds an audio element adds one record whose text
  is the placeholder; a row with text adds one record with its own text, so only audio
  rows without text receive the placeholder.
\<close>

theorem rows_without_text_or_audio_are_omitted:
  assumes "\<not> msg_data c" and "row_msg c" and "container c = Some m"
  shows "(trimmed_or_empty (msg_contentT m) = [] \<and> \<not> audio m \<longrightarrow>
            collect d acc (pre @ c # post) = collect d acc (pre @ post)
            \<and> extract_messages limit (Some (pre @ c # post))
                = extract_messages limit (Some (pre @ post)))
       \<and> (trimmed_or_empty (msg_contentT m) = [] \<and> audio m \<longrightarrow>
            collect d acc (c # post)
            = collect d
                (acc @ [\<lparr>remetente = (if bg_sent_msg m then ''atendente'' else ''cliente''),
                         horario = trimmed_or_empty (msg_timestamp m),
                         data = d, texto = ''['' @ A_acute @ ''udio]''\<rparr>]) post)
       \<and> (trimmed_or_empty (msg_contentT m) \<noteq> [] \<longrightarrow>
            collect d acc (c # post)
            = collect d
                (acc @ [\<lparr>remetente = (if bg_sent_msg m then ''atendente'' else ''cliente''),
                         horario = trimmed_or_empty (msg_timestamp m),
                         data = d, texto = trimmed_or_empty (msg_contentT m)\<rparr>]) post)"
  using assms collect_skips_silent_row [OF assms]
  by (simp add: extract_messages_def audio_placeholder_def)

theorem rows_without_text_or_audio_are_omitted_witness:
  "extract_messages 50
     (Some ([\<lparr>msg_data = True, row_msg = False, textContent = '' Hoje'', container = None\<rparr>, \<lparr>msg_data = False, row_msg = True, textContent = '' oi 10:00'',
              container = Some \<lparr>bg_sent_msg = True, msg_contentT = Some '' oi '',
                                audio = False, msg_timestamp = Some ''10:00''\<rparr>\<rparr>] @ \<lparr>msg_data = False, row_msg = True, textContent = ''10:01'',
              container = Some \<lparr>bg_sent_msg = False, msg_contentT = Some [CHR 0xC2, CHR 0xA0],
                                audio = False, msg_timestamp = Some ''10:01''\<rparr>\<rparr> # [\<lparr>msg_data = False, row_msg = True, textContent = ''10:02'',
              container = Some \<lparr>bg_sent_msg = False, msg_contentT = None,
                                audio = True, msg_timestamp = Some ''10:02''\<rparr>\<rparr>]))
   = [\<lparr>remetente = ''atendente'', horario = ''10:00'', data = ''Hoje'', texto = ''oi''\<rparr>,
      \<lparr>remetente = ''cliente'', horario = ''10:02'', data = ''Hoje'',
       texto = ''['' @ [CHR 0xC3, CHR 0x81] @ ''udio]''\<rparr>]"
proof -
  have trims: "trim '' oi '' = ''oi''" "trim [CHR 0xC2, CHR 0xA0] = []"
    "trim '' Hoje'' = ''Hoje''" "trim ''10:00'' = ''10:00''" "trim ''10:02'' = ''10:02''"
    by code_simp+
  have "extract_messages 50 (Some ([\<lparr>msg_data = True, row_msg = False, textContent = '' Hoje'', container = None\<rparr>, \<lparr>msg_data = False, row_msg = True, textContent = '' oi 10:00'',
              container = Some \<lparr>bg_sent_msg = True, msg_contentT = Some '' oi '',
                                audio = False, msg_timestamp = Some ''10:00''\<rparr>\<rparr>] @ \<lparr>msg_data = False, row_msg = True, textContent = ''10:01'',
              container = Some \<lparr>bg_sent_msg = False, msg_contentT = Some [CHR 0xC2, CHR 0xA0],
                                audio = False, msg_timestamp = Some ''10:01''\<rparr>\<rparr> # [\<lparr>msg_data = False, row_msg = True, textContent = ''10:02'',
              container = Some \<lparr>bg_sent_msg = False, msg_contentT = None,
                                audio = True, msg_timestamp = Some ''10:02''\<rparr>\<rparr>]))
        = extract_messages 50 (Some ([\<lparr>msg_data = True, row_msg = False, textContent = '' Hoje'', container = None\<rparr>, \<lparr>msg_data = False, row_msg = True, textContent = '' oi 10:00'',
              container = Some \<lparr>bg_sent_msg = True, msg_contentT = Some '' oi '',
                                audio = False, msg_timestamp = Some ''10:00''\<rparr>\<rparr>] @ [\<lparr>msg_data = False, row_msg = True, textContent = ''10:02'',
              container = Some \<lparr>bg_sent_msg = False, msg_contentT = None,
                                audio = True, msg_timestamp = Some ''10:02''\<rparr>\<rparr>]))"
    using rows_without_text_or_audio_are_omitted
      [of "\<lparr>msg_data = False, row_msg = True, textContent = ''10:01'',
              container = Some \<lparr>bg_sent_msg = False, msg_contentT = Some [CHR 0xC2, CHR 0xA0],
                                audio = False, msg_timestamp = Some ''10:01''\<rparr>\<rparr>"
          "\<lparr>bg_sent_msg = False, msg_contentT = Some [CHR 0xC2, CHR 0xA0],
                                audio = False, msg_timestamp = Some ''10:01''\<rparr>"
          "[]" "[]" "[\<lparr>msg_data = True, row_msg = False, textContent = '' Hoje'', container = None\<rparr>, \<lparr>msg_data = False, row_msg = True, textContent = '' oi 10:00'',
              container = Some \<lparr>bg_sent_msg = True, msg_contentT = Some '' oi '',
                                audio = False, msg_timestamp = Some ''10:00''\<rparr>\<rparr>]" "[\<lparr>msg_data = False, row_msg = True, textContent = ''10:02'',
              container = Some \<lparr>bg_sent_msg = False, msg_contentT = None,
                                audio = True, msg_timestamp = Some ''10:02''\<rparr>\<rparr>]" 50]
    by (simp add: trims trimmed_or_empty_def str_or_def del: collect.simps)
  also have "\<dots> = [\<lparr>remetente = ''atendente'', horario = ''10:00'', data = ''Hoje'',
                       texto = ''oi''\<rparr>,
                     \<lparr>remetente = ''cliente'', horario = ''10:02'', data = ''Hoje'',
                       texto = ''['' @ [CHR 0xC3, CHR 0x81] @ ''udio]''\<rparr>]"
    by (simp add: trims trimmed_or_empty_def str_or_def extract_messages_def to_integer_def
        array_slice_def audio_placeholder_def A_acute_def)
  finally show ?thesis .
qed

end
